theory Spec2Isabelle
  imports Complex_Main "HOL-Library.Multiset"
begin

section \<open>Data model\<close>

text \<open>
  The program is the React component of \<^verbatim>\<open>src/App.jsx\<close>. JavaScript numbers are
  modelled as the real numbers: every value is a finite number, \<^verbatim>\<open>3.3\<close> is the
  rational \<open>33/10\<close>, \<^verbatim>\<open>Math.log10\<close> is the real logarithm to base 10 and
  \<^verbatim>\<open>Math.ceil\<close> is the ceiling. The results of \<^verbatim>\<open>Math.ceil\<close> are kept as
  integers and the length of a filtered array as a natural number. This exact arithmetic
  is what the engine computes wherever the result of every operation is a double; the
  section on double precision rounds every operation and carries the properties that
  depend on the rounding.
\<close>

text \<open>
  One row of \<^verbatim>\<open>frequencyTable\<close>. The source stores the class limits only inside the
  template string \<^verbatim>\<open>`${lowerLimit} - ${upperLimit}`\<close>; the model keeps the two
  interpolated numbers as a pair (lower limit first).
\<close>

record class_record =
  lowerEdge :: real
  classInterval :: "real \<times> real"
  upperEdge :: real
  midpoint :: real
  frequency :: nat

text \<open>The object handed to \<^verbatim>\<open>setResults\<close>; the field \<^verbatim>\<open>range\<close> is named \<open>range_R\<close>.\<close>

record distribution =
  data :: "real list"
  minValue :: real
  maxValue :: real
  range_R :: real
  numberOfClasses :: int
  rawNumberOfClasses :: real
  classWidth :: int
  rawClassWidth :: real
  frequencyTable :: "class_record list"

text \<open>
  On an empty array the source does not fail: \<^verbatim>\<open>Math.min()\<close> is \<^verbatim>\<open>Infinity\<close>,
  \<^verbatim>\<open>Math.log10(0)\<close> is \<^verbatim>\<open>-Infinity\<close>, the class width is \<^verbatim>\<open>NaN\<close> and the table
  is empty. Those values are not real numbers, so that one object is the constructor
  \<open>NonFinite\<close>.
\<close>

datatype calc_result = NonFinite | Result distribution

section \<open>The calculator\<close>

text \<open>
  \<^verbatim>\<open>Math.min(...xs)\<close> and \<^verbatim>\<open>Math.max(...xs)\<close> on a non-empty array. The limit an
  engine puts on the number of spread arguments is outside the model.
\<close>

fun Math_min :: "real list \<Rightarrow> real" where
  "Math_min (x # xs) = fold min xs x"

fun Math_max :: "real list \<Rightarrow> real" where
  "Math_max (x # xs) = fold max xs x"

text \<open>
  The body of the \<^verbatim>\<open>for\<close> loop up to the \<^verbatim>\<open>push\<close>: the row of one class.
  As in the comments of the source, \<open>K\<close> is \<^verbatim>\<open>numberOfClasses\<close> and \<open>PK\<close> is
  \<^verbatim>\<open>classWidth\<close> where they are parameters.
\<close>

definition class_row :: "real list \<Rightarrow> real \<Rightarrow> int \<Rightarrow> class_record" where
  "class_row sortedData lowerLimit PK =
     (let upperLimit = lowerLimit + real_of_int PK - 1;
          lowerEdge = lowerLimit - 1 / 2;
          upperEdge = upperLimit + 1 / 2;
          midpoint = (lowerLimit + upperLimit) / 2;
          frequency = length (filter (\<lambda>value. value \<ge> lowerLimit \<and> value \<le> upperLimit) sortedData)
      in \<lparr> lowerEdge = lowerEdge, classInterval = (lowerLimit, upperLimit),
           upperEdge = upperEdge, midpoint = midpoint, frequency = frequency \<rparr>)"

text \<open>
  The loop \<^verbatim>\<open>for (let i = 0; i < numberOfClasses; i++)\<close> with its running
  \<^verbatim>\<open>lowerLimit\<close> and the table built so far.
\<close>

function class_loop ::
  "real list \<Rightarrow> int \<Rightarrow> int \<Rightarrow> int \<Rightarrow> real \<Rightarrow> class_record list \<Rightarrow> class_record list" where
  "class_loop sortedData K PK i lowerLimit table =
     (if i < K
      then class_loop sortedData K PK (i + 1)
             ((lowerLimit + real_of_int PK - 1) + 1)
             (table @ [class_row sortedData lowerLimit PK])
      else table)"
  by pat_completeness auto
termination
  by (relation "measure (\<lambda>(sortedData, K, PK, i, lowerLimit, table). nat (K - i))") auto

declare class_loop.simps [simp del]

text \<open>Steps 2 to 8 of \<^verbatim>\<open>calculateFrequencyDistribution\<close>, on the sorted copy.\<close>

definition distribution_of :: "real list \<Rightarrow> distribution" where
  "distribution_of sortedData =
     (let minValue = Math_min sortedData;
          maxValue = Math_max sortedData;
          range = maxValue - minValue;
          n = length sortedData;
          rawNumberOfClasses = 1 + 33 / 10 * log 10 (real n);
          numberOfClasses = \<lceil>rawNumberOfClasses\<rceil>;
          rawClassWidth = range / real_of_int numberOfClasses;
          classWidth = \<lceil>rawClassWidth\<rceil>;
          frequencyTable = class_loop sortedData numberOfClasses classWidth 0 minValue []
      in \<lparr> data = sortedData, minValue = minValue, maxValue = maxValue, range_R = range,
           numberOfClasses = numberOfClasses, rawNumberOfClasses = rawNumberOfClasses,
           classWidth = classWidth, rawClassWidth = rawClassWidth,
           frequencyTable = frequencyTable \<rparr>)"

text \<open>
  \<^verbatim>\<open>calculateFrequencyDistribution(values)\<close>, as a function from the contents of
  \<^verbatim>\<open>values\<close> to the object given to \<^verbatim>\<open>setResults\<close>. The comparator
  \<^verbatim>\<open>(a, b) => a - b\<close> sorts finite numbers ascending.
\<close>

definition calculateFrequencyDistribution :: "real list \<Rightarrow> calc_result" where
  "calculateFrequencyDistribution values =
     (if values = [] then NonFinite
      else let sortedData = sort values in Result (distribution_of sortedData))"

section \<open>The calculator on array references\<close>

text \<open>
  \<^verbatim>\<open>const sortedData = [...values].sort((a, b) => a - b)\<close> works on arrays, which
  JavaScript passes by reference, and \<^verbatim>\<open>sort\<close> sorts in place. The store maps a
  reference to the contents of its array; \<open>fresh\<close> is the next unused reference.
\<close>

record heap =
  arrays :: "nat \<Rightarrow> real list"
  fresh :: nat

text \<open>\<^verbatim>\<open>[...a]\<close>: a new array with the elements of \<open>a\<close>.\<close>

definition spread_copy :: "heap \<Rightarrow> nat \<Rightarrow> nat \<times> heap" where
  "spread_copy h a =
     (fresh h, h\<lparr> arrays := (arrays h)(fresh h := arrays h a), fresh := Suc (fresh h) \<rparr>)"

text \<open>\<^verbatim>\<open>a.sort((x, y) => x - y)\<close>: sorts the array \<open>a\<close> in place and returns \<open>a\<close>.\<close>

definition array_sort :: "heap \<Rightarrow> nat \<Rightarrow> nat \<times> heap" where
  "array_sort h a = (a, h\<lparr> arrays := (arrays h)(a := sort (arrays h a)) \<rparr>)"

text \<open>
  \<^verbatim>\<open>calculateFrequencyDistribution\<close> called with the reference \<open>values\<close>: the store
  afterwards and the object given to \<^verbatim>\<open>setResults\<close>. The rest of the body reads
  \<^verbatim>\<open>sortedData\<close> only.
\<close>

definition calculateFrequencyDistribution_ref :: "heap \<Rightarrow> nat \<Rightarrow> heap \<times> calc_result" where
  "calculateFrequencyDistribution_ref h values =
     (let (copy, h1) = spread_copy h values;
          (sortedData, h2) = array_sort h1 copy
      in (h2, if arrays h2 sortedData = [] then NonFinite
              else Result (distribution_of (arrays h2 sortedData))))"

section \<open>The upload handler\<close>

text \<open>
  A cell of the parsed file: \<^verbatim>\<open>typeof value === 'number'\<close> holds for \<open>Number\<close> cells
  only.
\<close>

datatype cell = Number real | NotNumber

text \<open>
  The selected file as \<^verbatim>\<open>handleFileUpload\<close> sees it: \<open>fileExtension\<close> is
  \<^verbatim>\<open>file.name.split('.').pop().toLowerCase()\<close>, and \<open>parsed\<close> is what the parsing
  library yields for it, flattened (\<^verbatim>\<open>result.data.flat()\<close> for PapaParse,
  \<^verbatim>\<open>jsonData.flat()\<close> for XLSX), or the message of the exception it throws.
\<close>

record upload_file =
  fileExtension :: string
  parsed :: "string + cell list"

text \<open>The \<^verbatim>\<open>useState\<close> cells of the component; \<^verbatim>\<open>data\<close> is named \<open>data_state\<close>.\<close>

record app_state =
  data_state :: "real list"
  results :: "calc_result option"
  error :: string
  loading :: bool
  fileSelected :: bool

text \<open>\<^verbatim>\<open>.filter(value => typeof value === 'number')\<close>\<close>

fun numeric_values :: "cell list \<Rightarrow> real list" where
  "numeric_values [] = []"
| "numeric_values (Number x # cs) = x # numeric_values cs"
| "numeric_values (NotNumber # cs) = numeric_values cs"

text \<open>The branches on the extension that assign \<^verbatim>\<open>values\<close>, or throw.\<close>

definition read_values :: "upload_file \<Rightarrow> string + real list" where
  "read_values file =
     (if fileExtension file = ''csv'' then
        (case parsed file of Inl message \<Rightarrow> Inl message
         | Inr cs \<Rightarrow> Inr (numeric_values cs))
      else if fileExtension file \<in> set [''xlsx'', ''xls''] then
        (case parsed file of Inl message \<Rightarrow> Inl message
         | Inr cs \<Rightarrow> Inr (numeric_values cs))
      else Inl ''Format file tidak didukung. Harap upload file Excel (.xlsx, .xls) atau CSV.'')"

text \<open>The \<^verbatim>\<open>try\<close> block: \<open>Inl\<close> is the message of the thrown error.\<close>

definition try_block :: "app_state \<Rightarrow> upload_file \<Rightarrow> string + app_state" where
  "try_block s file =
     (case read_values file of
        Inl message \<Rightarrow> Inl message
      | Inr values \<Rightarrow>
          if length values = 0
          then Inl ''Tidak ada data numerik yang ditemukan dalam file.''
          else Inr (s\<lparr> data_state := values,
                       results := Some (calculateFrequencyDistribution values) \<rparr>))"

text \<open>
  \<^verbatim>\<open>handleFileUpload\<close>: the argument is \<^verbatim>\<open>e.target.files[0]\<close>, \<open>None\<close> when no
  file is selected; the result is the component state after the handler.
\<close>

definition handleFileUpload :: "app_state \<Rightarrow> upload_file option \<Rightarrow> app_state" where
  "handleFileUpload s0 e =
     (let s1 = s0\<lparr> error := [], loading := True \<rparr> in
      case e of
        None \<Rightarrow> s1\<lparr> fileSelected := False, loading := False \<rparr>
      | Some file \<Rightarrow>
          let s2 = s1\<lparr> fileSelected := True \<rparr>;
              s3 = (case try_block s2 file of
                      Inl message \<Rightarrow>
                        s2\<lparr> error := (if message \<noteq> [] then message
                                       else ''Terjadi kesalahan saat membaca file.'') \<rparr>
                    | Inr s \<Rightarrow> s)
          in s3\<lparr> loading := False \<rparr>)"

section \<open>The calculator in double precision\<close>

text \<open>
  The section \<open>The calculator\<close> computes on exact reals, which is what the engine
  computes as long as every operation has a result that is a double. This section
  repeats steps 2 and 4 to 8 with every arithmetic operation rounded to IEEE 754 binary64,
  as the engine does it, so that large and fractional inputs are covered too. The inputs
  are taken to be finite doubles; signed zeros are not distinguished.
\<close>

text \<open>A JavaScript number: a finite double, an infinity or \<^verbatim>\<open>NaN\<close>.\<close>

datatype number = Fin real | PosInf | NegInf | NaN

text \<open>Rounding a real to the nearest integer, a tie going to the even neighbour.\<close>

definition round_even :: "real \<Rightarrow> int" where
  "round_even y =
     (let f = \<lfloor>y\<rfloor> in
      if y - of_int f < 1 / 2 then f
      else if 1 / 2 < y - of_int f then f + 1
      else if even f then f else f + 1)"

text \<open>
  The distance between neighbouring doubles around \<open>x\<close>: 52 binary places below the
  leading bit, and never less than \<open>2 ^ - 1074\<close>, the smallest subnormal.
\<close>

definition quantum :: "real \<Rightarrow> real" where
  "quantum x = 2 powr of_int (max (- 1074) (\<lfloor>log 2 \<bar>x\<bar>\<rfloor> - 52))"

text \<open>Round to nearest, ties to even, with the exponent unbounded above.\<close>

definition round_binary64 :: "real \<Rightarrow> real" where
  "round_binary64 x = (if x = 0 then 0 else of_int (round_even (x / quantum x)) * quantum x)"

text \<open>The double for a real result: beyond the largest double it is an infinity.\<close>

definition fl :: "real \<Rightarrow> number" where
  "fl x =
     (let r = round_binary64 x in
      if 2 ^ 1024 \<le> r then PosInf else if r \<le> - (2 ^ 1024) then NegInf else Fin r)"

text \<open>The operators \<^verbatim>\<open>+\<close> and \<^verbatim>\<open>-\<close> on numbers.\<close>

fun js_add :: "number \<Rightarrow> number \<Rightarrow> number" where
  "js_add (Fin a) (Fin b) = fl (a + b)"
| "js_add NaN y = NaN"
| "js_add x NaN = NaN"
| "js_add PosInf NegInf = NaN"
| "js_add NegInf PosInf = NaN"
| "js_add PosInf y = PosInf"
| "js_add x PosInf = PosInf"
| "js_add NegInf y = NegInf"
| "js_add x NegInf = NegInf"

fun js_sub :: "number \<Rightarrow> number \<Rightarrow> number" where
  "js_sub (Fin a) (Fin b) = fl (a - b)"
| "js_sub NaN y = NaN"
| "js_sub x NaN = NaN"
| "js_sub PosInf PosInf = NaN"
| "js_sub NegInf NegInf = NaN"
| "js_sub PosInf y = PosInf"
| "js_sub x NegInf = PosInf"
| "js_sub NegInf y = NegInf"
| "js_sub x PosInf = NegInf"

text \<open>
  The operator \<^verbatim>\<open>/\<close> with a finite divisor that is not zero: the source divides by
  \<^verbatim>\<open>numberOfClasses\<close>, at least 1 on a non-empty array, and by the literal 2.
\<close>

fun js_div :: "number \<Rightarrow> real \<Rightarrow> number" where
  "js_div (Fin a) d = fl (a / d)"
| "js_div PosInf d = PosInf"
| "js_div NegInf d = NegInf"
| "js_div NaN d = NaN"

text \<open>\<^verbatim>\<open>Math.ceil\<close>: the ceiling of a double is a double.\<close>

fun Math_ceil :: "number \<Rightarrow> number" where
  "Math_ceil (Fin a) = Fin (of_int \<lceil>a\<rceil>)"
| "Math_ceil x = x"

text \<open>The operator \<^verbatim>\<open><=\<close>; \<^verbatim>\<open>a >= b\<close> is \<open>js_le b a\<close>. A comparison with \<^verbatim>\<open>NaN\<close> is false.\<close>

fun js_le :: "number \<Rightarrow> number \<Rightarrow> bool" where
  "js_le (Fin a) (Fin b) = (a \<le> b)"
| "js_le NaN y = False"
| "js_le x NaN = False"
| "js_le NegInf y = True"
| "js_le x PosInf = True"
| "js_le x y = False"

text \<open>
  The row and the result object with numbers in the fields that the rounded operations
  fill. The number of classes stays the exact ceiling of \<open>distribution_of\<close>.
\<close>

record class_record64 =
  lowerEdge64 :: number
  classInterval64 :: "number \<times> number"
  upperEdge64 :: number
  midpoint64 :: number
  frequency64 :: nat

record distribution64 =
  data64 :: "real list"
  minValue64 :: real
  maxValue64 :: real
  range64 :: number
  numberOfClasses64 :: int
  rawNumberOfClasses64 :: real
  classWidth64 :: number
  rawClassWidth64 :: number
  frequencyTable64 :: "class_record64 list"

text \<open>As before, the object built for the empty array is one constructor.\<close>

datatype calc_result64 = OfEmpty64 | Result64 distribution64

text \<open>The body of the loop, each operation rounded.\<close>

definition class_row64 :: "real list \<Rightarrow> number \<Rightarrow> number \<Rightarrow> class_record64" where
  "class_row64 sortedData lowerLimit PK =
     (let upperLimit = js_sub (js_add lowerLimit PK) (Fin 1);
          lowerEdge = js_sub lowerLimit (Fin (1 / 2));
          upperEdge = js_add upperLimit (Fin (1 / 2));
          midpoint = js_div (js_add lowerLimit upperLimit) 2;
          frequency = length (filter (\<lambda>value. js_le lowerLimit (Fin value)
                                         \<and> js_le (Fin value) upperLimit) sortedData)
      in \<lparr> lowerEdge64 = lowerEdge, classInterval64 = (lowerLimit, upperLimit),
           upperEdge64 = upperEdge, midpoint64 = midpoint, frequency64 = frequency \<rparr>)"

text \<open>The loop; the next lower limit is \<^verbatim>\<open>upperLimit + 1\<close>, rounded.\<close>

function class_loop64 ::
  "real list \<Rightarrow> int \<Rightarrow> number \<Rightarrow> int \<Rightarrow> number \<Rightarrow> class_record64 list \<Rightarrow> class_record64 list" where
  "class_loop64 sortedData K PK i lowerLimit table =
     (if i < K
      then class_loop64 sortedData K PK (i + 1)
             (js_add (js_sub (js_add lowerLimit PK) (Fin 1)) (Fin 1))
             (table @ [class_row64 sortedData lowerLimit PK])
      else table)"
  by pat_completeness auto
termination
  by (relation "measure (\<lambda>(sortedData, K, PK, i, lowerLimit, table). nat (K - i))") auto

declare class_loop64.simps [simp del]

text \<open>Steps 2 to 8 on the sorted copy.\<close>

definition distribution_of64 :: "real list \<Rightarrow> distribution64" where
  "distribution_of64 sortedData =
     (let minValue = Math_min sortedData;
          maxValue = Math_max sortedData;
          range = js_sub (Fin maxValue) (Fin minValue);
          n = length sortedData;
          rawNumberOfClasses = 1 + 33 / 10 * log 10 (real n);
          numberOfClasses = \<lceil>rawNumberOfClasses\<rceil>;
          rawClassWidth = js_div range (real_of_int numberOfClasses);
          classWidth = Math_ceil rawClassWidth;
          frequencyTable = class_loop64 sortedData numberOfClasses classWidth 0 (Fin minValue) []
      in \<lparr> data64 = sortedData, minValue64 = minValue, maxValue64 = maxValue, range64 = range,
           numberOfClasses64 = numberOfClasses, rawNumberOfClasses64 = rawNumberOfClasses,
           classWidth64 = classWidth, rawClassWidth64 = rawClassWidth,
           frequencyTable64 = frequencyTable \<rparr>)"

definition calculateFrequencyDistribution64 :: "real list \<Rightarrow> calc_result64" where
  "calculateFrequencyDistribution64 values =
     (if values = [] then OfEmpty64
      else let sortedData = sort values in Result64 (distribution_of64 sortedData))"


section \<open>Auxiliary facts\<close>


text \<open>
  The ceiling in Sturges' rule without the logarithm: for \<open>n\<close> observations the number
  of classes is \<open>m + 2\<close> exactly when \<open>n ^ 33\<close> lies above \<open>10 ^ (10 * m)\<close> and at most
  \<open>10 ^ (10 * (m + 1))\<close>.
\<close>

lemma sturges_ceiling:
  assumes "10 ^ (10 * m) < n ^ 33" and "n ^ 33 \<le> (10::nat) ^ (10 * (m + 1))"
  shows "\<lceil>1 + 33 / 10 * log 10 (real n)\<rceil> = int m + 2"
proof -
  have npos: "0 < n" using assms(1) by (cases n) auto
  have L: "33 * log 10 (real n) = log 10 (real (n ^ 33))"
    using npos by (simp add: log_nat_power)
  have "real (10 ^ (10 * m)) < real (n ^ 33)" using assms(1) by (rule of_nat_less_iff [THEN iffD2])
  then have "log 10 (real (10 ^ (10 * m))) < log 10 (real (n ^ 33))"
    using npos by (subst log_less_cancel_iff) auto
  then have lo: "real (10 * m) < 33 * log 10 (real n)"
    unfolding L by (simp add: log_nat_power)
  have "real (n ^ 33) \<le> real (10 ^ (10 * (m + 1)))" using assms(2) by (rule of_nat_le_iff [THEN iffD2])
  then have "log 10 (real (n ^ 33)) \<le> log 10 (real (10 ^ (10 * (m + 1))))"
    using npos by (subst log_le_cancel_iff) auto
  then have hi: "33 * log 10 (real n) \<le> real (10 * (m + 1))"
    unfolding L by (simp add: log_nat_power)
  have lo': "real m < 33 / 10 * log 10 (real n)" using lo by simp
  have hi': "33 / 10 * log 10 (real n) \<le> real m + 1" using hi by simp
  show ?thesis
  proof (rule ceiling_unique)
    show "real_of_int (int m + 2) - 1 < 1 + 33 / 10 * log 10 (real n)" using lo' by simp
    show "1 + 33 / 10 * log 10 (real n) \<le> real_of_int (int m + 2)" using hi' by simp
  qed
qed

lemma class_loop_step:
  "i < K \<Longrightarrow> class_loop sd K PK i l t =
     class_loop sd K PK (i + 1) ((l + real_of_int PK - 1) + 1) (t @ [class_row sd l PK])"
  by (subst class_loop.simps) simp

lemma class_loop_stop: "\<not> i < K \<Longrightarrow> class_loop sd K PK i l t = t"
  by (subst class_loop.simps) simp

text \<open>Three observations give three classes: \<open>10 ^ 10 < 3 ^ 33 \<le> 10 ^ 20\<close>.\<close>

lemma sturges_3: "\<lceil>1 + 33 * log 10 3 / 10\<rceil> = 3"
  using sturges_ceiling [of 1 3] by simp

lemmas eval_simps = calculateFrequencyDistribution_def distribution_of_def Let_def
  class_loop_step class_loop_stop class_row_def



lemma sturges_ge_1:
  assumes "0 < n"
  shows "1 \<le> \<lceil>1 + 33 / 10 * log 10 (real n)\<rceil>"
proof -
  have "0 \<le> log 10 (real n)" using assms by (simp add: zero_le_log_cancel_iff)
  then have "(1::real) \<le> 1 + 33 / 10 * log 10 (real n)" by simp
  then show ?thesis by (simp add: le_ceiling_iff)
qed

lemma calc_nonempty:
  "values \<noteq> [] \<Longrightarrow>
     calculateFrequencyDistribution values = Result (distribution_of (sort values))"
  by (simp add: calculateFrequencyDistribution_def)

lemma numberOfClasses_of:
  "numberOfClasses (distribution_of sd) = \<lceil>1 + 33 / 10 * log 10 (real (length sd))\<rceil>"
  by (simp add: distribution_of_def Let_def)

















section \<open>The classes in exact arithmetic\<close>





section \<open>Number of classes\<close>

text \<open>
  Claim C4. For every non-empty input of length \<open>n\<close> the calculator produces a result
  whose \<^verbatim>\<open>numberOfClasses\<close> is \<open>ceil (1 + 3.3 * log10 n)\<close>, and that number is at
  least 1.
\<close>

theorem numberOfClasses_sturges:
  assumes "values \<noteq> []"
  shows "\<exists>r. calculateFrequencyDistribution values = Result r
           \<and> numberOfClasses r = \<lceil>1 + 33 / 10 * log 10 (real (length values))\<rceil>
           \<and> 1 \<le> numberOfClasses r"
proof -
  have "0 < length values" using assms by simp
  then have "1 \<le> \<lceil>1 + 33 / 10 * log 10 (real (length values))\<rceil>" by (rule sturges_ge_1)
  then show ?thesis using assms by (simp add: calc_nonempty numberOfClasses_of)
qed

theorem numberOfClasses_sturges_witness:
  "[4, 8, 6 :: real] \<noteq> [] \<and>
   (\<exists>r. calculateFrequencyDistribution [4, 8, 6] = Result r
        \<and> numberOfClasses r = \<lceil>1 + 33 / 10 * log 10 (real (length [4, 8, 6 :: real]))\<rceil>
        \<and> 1 \<le> numberOfClasses r)"
  using numberOfClasses_sturges [of "[4, 8, 6]"] by simp

section \<open>The scenarios\<close>

text \<open>
  Claim C2, as the code has it. For the input \<open>[5, 5, 5]\<close> the calculator returns range 0,
  3 classes and class width 0; each of the three rows has lower limit 5 and upper limit 4
  and frequency 0.
\<close>

theorem identical_values_example:
  "calculateFrequencyDistribution [5, 5, 5] = Result
     \<lparr> data = [5, 5, 5], minValue = 5, maxValue = 5, range_R = 0,
       numberOfClasses = 3, rawNumberOfClasses = 1 + 33 / 10 * log 10 3,
       classWidth = 0, rawClassWidth = 0,
       frequencyTable =
         [\<lparr> lowerEdge = 9 / 2, classInterval = (5, 4), upperEdge = 9 / 2, midpoint = 9 / 2, frequency = 0 \<rparr>,
          \<lparr> lowerEdge = 9 / 2, classInterval = (5, 4), upperEdge = 9 / 2, midpoint = 9 / 2, frequency = 0 \<rparr>,
          \<lparr> lowerEdge = 9 / 2, classInterval = (5, 4), upperEdge = 9 / 2, midpoint = 9 / 2, frequency = 0 \<rparr>] \<rparr>"
  by (simp add: eval_simps sturges_3)

text \<open>
  The claim as written fails: the class width is not 1, the classes are not
  \<open>[5-5], [6-6], [7-7]\<close> and the frequencies are not \<open>[3, 0, 0]\<close>.
\<close>

theorem identical_values_counterexample:
  "calculateFrequencyDistribution [5, 5, 5] = Result (distribution_of [5, 5, 5])
   \<and> classWidth (distribution_of [5, 5, 5]) \<noteq> 1
   \<and> map classInterval (frequencyTable (distribution_of [5, 5, 5])) \<noteq> [(5, 5), (6, 6), (7, 7)]
   \<and> map frequency (frequencyTable (distribution_of [5, 5, 5])) \<noteq> [3, 0, 0]"
  by (simp add: eval_simps sturges_3)

text \<open>
  Claim C8. For the input \<open>[1, 2, \<dots>, 10]\<close> the calculator returns range 9, raw number
  of classes 4.3, 5 classes, raw class width 1.8, class width 2 and the classes
  \<open>[1-2], [3-4], [5-6], [7-8], [9-10]\<close>, each with frequency 2; the frequencies sum to 10.
\<close>

theorem one_to_ten_example:
  "calculateFrequencyDistribution [1, 2, 3, 4, 5, 6, 7, 8, 9, 10] = Result
     \<lparr> data = [1, 2, 3, 4, 5, 6, 7, 8, 9, 10], minValue = 1, maxValue = 10, range_R = 9,
       numberOfClasses = 5, rawNumberOfClasses = 43 / 10,
       classWidth = 2, rawClassWidth = 9 / 5,
       frequencyTable =
         [\<lparr> lowerEdge = 1 / 2, classInterval = (1, 2), upperEdge = 5 / 2, midpoint = 3 / 2, frequency = 2 \<rparr>,
          \<lparr> lowerEdge = 5 / 2, classInterval = (3, 4), upperEdge = 9 / 2, midpoint = 7 / 2, frequency = 2 \<rparr>,
          \<lparr> lowerEdge = 9 / 2, classInterval = (5, 6), upperEdge = 13 / 2, midpoint = 11 / 2, frequency = 2 \<rparr>,
          \<lparr> lowerEdge = 13 / 2, classInterval = (7, 8), upperEdge = 17 / 2, midpoint = 15 / 2, frequency = 2 \<rparr>,
          \<lparr> lowerEdge = 17 / 2, classInterval = (9, 10), upperEdge = 21 / 2, midpoint = 19 / 2, frequency = 2 \<rparr>] \<rparr>
   \<and> sum_list (map frequency (frequencyTable (distribution_of (sort [1, 2, 3, 4, 5, 6, 7, 8, 9, 10])))) = 10"
  by (simp add: eval_simps)

section \<open>Order of the input\<close>

text \<open>
  Claim C5. Two inputs with the same multiset of values (one a permutation of the
  other) give the same result.
\<close>

theorem permutation_invariant:
  assumes "mset xs = mset ys"
  shows "calculateFrequencyDistribution xs = calculateFrequencyDistribution ys"
proof -
  have "sort xs = sort ys"
    using assms by (intro properties_for_sort) simp_all
  moreover have "xs = [] \<longleftrightarrow> ys = []"
    using assms by (metis mset_zero_iff)
  ultimately show ?thesis by (simp add: calculateFrequencyDistribution_def)
qed

theorem permutation_invariant_witness:
  "mset [2, 7, 2 :: real] = mset [7, 2, 2]
   \<and> calculateFrequencyDistribution [2, 7, 2] = calculateFrequencyDistribution [7, 2, 2]"
  using permutation_invariant [of "[2, 7, 2]" "[7, 2, 2]"] by simp

text \<open>Duplicates are counted: the result changes when a repeated value is dropped.\<close>

lemma duplicates_counted:
  "calculateFrequencyDistribution [2, 2, 7] \<noteq> calculateFrequencyDistribution [2, 7]"
  by (simp add: calculateFrequencyDistribution_def distribution_of_def Let_def)

section \<open>Empty input\<close>

text \<open>
  Claim C6. When a file of a supported format yields no numeric value, the handler
  ends with the error message \<^verbatim>\<open>Tidak ada data numerik yang ditemukan dalam file.\<close>
  and leaves \<^verbatim>\<open>results\<close> (and \<^verbatim>\<open>data\<close>) as they were: the calculator is not
  called on the empty sequence.
\<close>

theorem empty_input_rejected:
  assumes "fileExtension file \<in> {''csv'', ''xlsx'', ''xls''}"
    and "parsed file = Inr cs" and "numeric_values cs = []"
  shows "handleFileUpload s (Some file) =
           s\<lparr> error := ''Tidak ada data numerik yang ditemukan dalam file.'',
              loading := False, fileSelected := True \<rparr>
         \<and> results (handleFileUpload s (Some file)) = results s"
proof -
  have "read_values file = Inr []"
    using assms by (auto simp: read_values_def)
  then show ?thesis
    by (simp add: handleFileUpload_def try_block_def Let_def)
qed

theorem empty_input_rejected_witness:
  "fileExtension \<lparr> fileExtension = ''csv'', parsed = Inr [NotNumber, NotNumber] \<rparr>
     \<in> {''csv'', ''xlsx'', ''xls''}
   \<and> parsed \<lparr> fileExtension = ''csv'', parsed = Inr [NotNumber, NotNumber] \<rparr>
       = Inr [NotNumber, NotNumber]
   \<and> numeric_values [NotNumber, NotNumber] = []
   \<and> handleFileUpload
       \<lparr> data_state = [], results = None, error = [], loading = False, fileSelected = False \<rparr>
       (Some \<lparr> fileExtension = ''csv'', parsed = Inr [NotNumber, NotNumber] \<rparr>)
     = \<lparr> data_state = [], results = None,
         error = ''Tidak ada data numerik yang ditemukan dalam file.'',
         loading = False, fileSelected = True \<rparr>"
  using empty_input_rejected
    [of "\<lparr> fileExtension = ''csv'', parsed = Inr [NotNumber, NotNumber] \<rparr>"
        "[NotNumber, NotNumber]"
        "\<lparr> data_state = [], results = None, error = [], loading = False, fileSelected = False \<rparr>"]
  by simp

text \<open>Whenever the handler stores a result, it has computed it from a non-empty array.\<close>

lemma handler_calculates_on_nonempty:
  assumes "results (handleFileUpload s e) \<noteq> results s"
  shows "\<exists>values. values \<noteq> []
           \<and> results (handleFileUpload s e) = Some (calculateFrequencyDistribution values)"
  using assms
  by (auto simp: handleFileUpload_def try_block_def Let_def
           split: option.splits sum.splits if_splits)

section \<open>The input array\<close>

text \<open>
  Claim C9. Called on an allocated array, the calculator leaves that array, and every
  other array allocated before the call, with the contents it had, and its result is
  the function \<open>calculateFrequencyDistribution\<close> of the contents of the input array.
\<close>

theorem input_array_unchanged:
  assumes "values < fresh h"
  shows "arrays (fst (calculateFrequencyDistribution_ref h values)) values = arrays h values
         \<and> (\<forall>a<fresh h. arrays (fst (calculateFrequencyDistribution_ref h values)) a = arrays h a)
         \<and> snd (calculateFrequencyDistribution_ref h values)
             = calculateFrequencyDistribution (arrays h values)"
proof -
  have "sort (arrays h values) = [] \<longleftrightarrow> arrays h values = []"
    by (metis length_sort length_0_conv)
  then show ?thesis
    using assms
    by (simp add: calculateFrequencyDistribution_ref_def spread_copy_def array_sort_def
                  calculateFrequencyDistribution_def Let_def)
qed

theorem input_array_unchanged_witness:
  "(0::nat) < fresh \<lparr> arrays = (\<lambda>a. []) (0 := [3, 1, 2]), fresh = 1 \<rparr>
   \<and> arrays (fst (calculateFrequencyDistribution_ref
                   \<lparr> arrays = (\<lambda>a. []) (0 := [3, 1, 2]), fresh = 1 \<rparr> 0)) 0 = [3, 1, 2]
   \<and> snd (calculateFrequencyDistribution_ref
            \<lparr> arrays = (\<lambda>a. []) (0 := [3, 1, 2]), fresh = 1 \<rparr> 0)
       = calculateFrequencyDistribution [3, 1, 2]"
  using input_array_unchanged [of 0 "\<lparr> arrays = (\<lambda>a. []) (0 := [3, 1, 2]), fresh = 1 \<rparr>"]
  by simp

text \<open>Sorting without the copy would reorder the array it is given.\<close>

lemma array_sort_in_place:
  "arrays (snd (array_sort \<lparr> arrays = (\<lambda>a. []) (0 := [3, 1, 2]), fresh = 1 \<rparr> 0)) 0 = [1, 2, 3]"
  by (simp add: array_sort_def)

section \<open>Rounding to double precision\<close>

text \<open>Rounding to an integer keeps integers and keeps the order with them.\<close>

lemma round_even_of_int: "round_even (of_int k) = k"
  by (simp add: round_even_def)

lemma round_even_le: "y \<le> of_int B \<Longrightarrow> round_even y \<le> B"
proof -
  assume y: "y \<le> of_int B"
  have f: "\<lfloor>y\<rfloor> \<le> B" using y by (simp add: floor_le_iff) 
  show ?thesis
  proof (cases "y = of_int B")
    case True
    then show ?thesis by (simp add: round_even_of_int)
  next
    case False
    then have "y < of_int B" using y by simp
    then have "\<lfloor>y\<rfloor> < B" by (simp add: floor_less_iff)
    then show ?thesis by (simp add: round_even_def Let_def)
  qed
qed

lemma round_even_ge: "of_int A \<le> y \<Longrightarrow> A \<le> round_even y"
proof -
  assume "of_int A \<le> y"
  then have "A \<le> \<lfloor>y\<rfloor>" by (simp add: le_floor_iff)
  then show ?thesis by (simp add: round_even_def Let_def)
qed


lemma grid:
  fixes q :: real
  assumes "q = 1 / (64 * 2 ^ m)"
  shows "0 < q"
    and "of_int k / 64 / q = of_int (k * 2 ^ m)"
    and "of_int (k * 2 ^ m) * q = of_int k / 64"
  unfolding assms by simp_all

lemma quantum_fine:
  assumes "x \<noteq> 0" and "\<bar>x\<bar> < 2 ^ 47"
  shows "\<exists>m::nat. quantum x = 1 / (64 * 2 ^ m)"
proof -
  define e where "e = max (- 1074) (\<lfloor>log 2 \<bar>x\<bar>\<rfloor> - 52)"
  have pos: "0 < \<bar>x\<bar>" using assms(1) by simp
  have "\<bar>x\<bar> < 2 powr 47" using assms(2) by simp
  then have "log 2 \<bar>x\<bar> < 47" using pos by (simp only: log_less_iff [of 2, simplified])
  then have "\<lfloor>log 2 \<bar>x\<bar>\<rfloor> < 47" by (simp add: floor_less_iff)
  then have e6: "e \<le> - 6" unfolding e_def by simp
  define m where "m = nat (- e - 6)"
  have e: "e = - int (m + 6)" using e6 unfolding m_def by simp
  have "quantum x = 2 powr of_int e" unfolding quantum_def e_def ..
  also have "\<dots> = 2 powr (- real (m + 6))" unfolding e by simp
  also have "\<dots> = 1 / 2 ^ (m + 6)" by (simp add: powr_minus powr_realpow divide_inverse del: of_nat_add)
  also have "\<dots> = 1 / (64 * 2 ^ m)" by (simp add: power_add)
  finally show ?thesis by blast
qed

lemma round_binary64_fix:
  assumes "x = of_int k / 64" and "\<bar>x\<bar> < 2 ^ 47"
  shows "round_binary64 x = x"
proof (cases "x = 0")
  case True
  then show ?thesis by (simp add: round_binary64_def)
next
  case False
  from quantum_fine [OF False assms(2)] obtain m :: nat where q: "quantum x = 1 / (64 * 2 ^ m)" ..
  have "x / quantum x = of_int (k * 2 ^ m)"
    using grid(2) [OF q, of k] by (simp only: assms(1) [symmetric])
  then have "round_even (x / quantum x) = k * 2 ^ m" by (simp only: round_even_of_int)
  then have "round_binary64 x = of_int (k * 2 ^ m) * quantum x"
    using False by (simp only: round_binary64_def if_False)
  also have "\<dots> = x" using grid(3) [OF q, of k] by (simp only: assms(1) [symmetric])
  finally show ?thesis .
qed

lemma round_binary64_le:
  assumes "\<bar>x\<bar> < 2 ^ 47" and "x \<le> of_int k / 64"
  shows "round_binary64 x \<le> of_int k / 64"
proof (cases "x = 0")
  case True
  then show ?thesis using assms(2) by (simp add: round_binary64_def)
next
  case False
  from quantum_fine [OF False assms(1)] obtain m :: nat where q: "quantum x = 1 / (64 * 2 ^ m)" ..
  note g = grid(1) [OF q] grid(2) [OF q, of k] grid(3) [OF q, of k]
  have "x / quantum x \<le> of_int k / 64 / quantum x"
    using assms(2) g(1) by (simp only: divide_right_mono less_imp_le)
  then have "x / quantum x \<le> of_int (k * 2 ^ m)" by (simp only: g(2))
  then have "round_even (x / quantum x) \<le> k * 2 ^ m" by (rule round_even_le)
  then have "real_of_int (round_even (x / quantum x)) \<le> real_of_int (k * 2 ^ m)"
    by (simp only: of_int_le_iff)
  then have "real_of_int (round_even (x / quantum x)) * quantum x
               \<le> real_of_int (k * 2 ^ m) * quantum x"
    using g(1) by (intro mult_right_mono) simp_all
  then have "real_of_int (round_even (x / quantum x)) * quantum x \<le> of_int k / 64"
    by (simp only: g(3))
  then show ?thesis using False by (simp only: round_binary64_def if_False)
qed

lemma round_binary64_ge:
  assumes "\<bar>x\<bar> < 2 ^ 47" and "of_int k / 64 \<le> x"
  shows "of_int k / 64 \<le> round_binary64 x"
proof (cases "x = 0")
  case True
  then show ?thesis using assms(2) by (simp add: round_binary64_def)
next
  case False
  from quantum_fine [OF False assms(1)] obtain m :: nat where q: "quantum x = 1 / (64 * 2 ^ m)" ..
  note g = grid(1) [OF q] grid(2) [OF q, of k] grid(3) [OF q, of k]
  have "of_int k / 64 / quantum x \<le> x / quantum x"
    using assms(2) g(1) by (simp only: divide_right_mono less_imp_le)
  then have "of_int (k * 2 ^ m) \<le> x / quantum x" by (simp only: g(2))
  then have "k * 2 ^ m \<le> round_even (x / quantum x)" by (rule round_even_ge)
  then have "real_of_int (k * 2 ^ m) \<le> real_of_int (round_even (x / quantum x))"
    by (simp only: of_int_le_iff)
  then have "real_of_int (k * 2 ^ m) * quantum x
               \<le> real_of_int (round_even (x / quantum x)) * quantum x"
    using g(1) by (intro mult_right_mono) simp_all
  then have "of_int k / 64 \<le> real_of_int (round_even (x / quantum x)) * quantum x"
    by (simp only: g(3))
  then show ?thesis using False by (simp only: round_binary64_def if_False)
qed

lemma fl_small:
  assumes "\<bar>x\<bar> < 2 ^ 47"
  shows "fl x = Fin (round_binary64 x)"
proof -
  have "round_binary64 x \<le> of_int (2 ^ 53) / 64"
    using assms by (intro round_binary64_le) simp_all
  moreover have "of_int (- (2 ^ 53)) / 64 \<le> round_binary64 x"
    using assms by (intro round_binary64_ge) simp_all
  ultimately show ?thesis by (simp add: fl_def Let_def)
qed

lemma fl_fix:
  assumes "x = of_int k / 64" and "\<bar>x\<bar> < 2 ^ 47"
  shows "fl x = Fin x"
  using fl_small [OF assms(2)] round_binary64_fix [OF assms] by simp

lemma fl_int: "\<bar>real_of_int z\<bar> < 2 ^ 47 \<Longrightarrow> fl (of_int z) = Fin (of_int z)"
  by (rule fl_fix [of _ "z * 64"]) simp_all




lemma fl_0: "fl 0 = Fin 0"
  by (simp add: fl_def round_binary64_def)

lemma fl_numeral: "numeral k < (2::real) ^ 47 \<Longrightarrow> fl (numeral k) = Fin (numeral k)"
  using fl_int [of "numeral k"] by simp

lemma fl_1: "fl 1 = Fin 1"
  using fl_int [of 1] by simp








text \<open>
  The rounded quotient of an integer up to \<open>2 ^ 46\<close> by a class count up to 64 has the
  ceiling of the exact quotient; an array of fewer than \<open>2 ^ 32\<close> values has at most 33
  classes.
\<close>

lemma div_ceiling:
  assumes "0 \<le> a" and "a \<le> 2 ^ 46" and "1 \<le> K" and "K \<le> 64"
  shows "\<lceil>round_binary64 (real_of_int a / real_of_int K)\<rceil> = \<lceil>real_of_int a / real_of_int K\<rceil>"
proof -
  let ?x = "real_of_int a / real_of_int K"
  define m where "m = \<lceil>?x\<rceil>"
  have Kpos: "0 < real_of_int K" using assms(3) by simp
  have x0: "0 \<le> ?x" using assms(1) Kpos by simp
  have "?x \<le> real_of_int a" using assms(1,3) by (simp add: divide_le_eq mult_le_cancel_left1)
  also have "\<dots> \<le> 2 ^ 46" using assms(2) by (metis of_int_le_numeral_power_cancel_iff)
  finally have xle: "?x \<le> 2 ^ 46" .
  have small: "\<bar>?x\<bar> < 2 ^ 47" using x0 xle by simp
  have up: "?x \<le> real_of_int m" unfolding m_def by (rule le_of_int_ceiling)
  have lo: "real_of_int m - 1 < ?x" unfolding m_def by linarith
  then have "real_of_int (m - 1) * real_of_int K < real_of_int a"
    using Kpos by (simp add: pos_less_divide_eq)
  then have "(m - 1) * K < a" by (metis of_int_less_iff of_int_mult)
  then have "(m - 1) * K + 1 \<le> a" by simp
  then have "real_of_int ((m - 1) * K + 1) \<le> real_of_int a" by (simp only: of_int_le_iff)
  then have "real_of_int ((m - 1) * K + 1) / real_of_int K \<le> ?x"
    using Kpos by (intro divide_right_mono) simp_all
  moreover have "real_of_int ((m - 1) * K + 1) / real_of_int K
                   = real_of_int (m - 1) + 1 / real_of_int K"
    using Kpos by (simp add: add_divide_distrib)
  ultimately have "real_of_int (m - 1) + 1 / real_of_int K \<le> ?x" by simp
  moreover have "1 / 64 \<le> 1 / real_of_int K"
    using assms(3,4) by (simp add: frac_le)
  ultimately have "real_of_int (m - 1) + 1 / 64 \<le> ?x" by linarith
  moreover have "real_of_int (64 * (m - 1) + 1) / 64 = real_of_int (m - 1) + 1 / 64" by simp
  ultimately have lo64: "real_of_int (64 * (m - 1) + 1) / 64 \<le> ?x" by (simp only:)
  have "round_binary64 ?x \<le> real_of_int (64 * m) / 64"
    using small up by (intro round_binary64_le) simp_all
  then have r_up: "round_binary64 ?x \<le> real_of_int m" by simp
  have "real_of_int (64 * (m - 1) + 1) / 64 \<le> round_binary64 ?x"
    using small lo64 by (intro round_binary64_ge)
  then have r_lo: "real_of_int m - 1 < round_binary64 ?x" by (simp add: add_divide_distrib)
  have "\<lceil>round_binary64 ?x\<rceil> = m" using r_lo r_up by (intro ceiling_unique)
  then show ?thesis unfolding m_def .
qed





section \<open>Integer inputs: the rounded and the exact computation agree\<close>

text \<open>
  On integers of magnitude at most \<open>2 ^ 45\<close>, fewer than \<open>2 ^ 32\<close> of them, every limit,
  edge and midpoint is a multiple of \<open>1 / 2\<close> below \<open>2 ^ 47\<close>, so no operation of the
  loop rounds, and the quotient rounds without crossing an integer.
\<close>

lemma class_loop64_step:
  "i < K \<Longrightarrow> class_loop64 sd K PK i l t =
     class_loop64 sd K PK (i + 1) (js_add (js_sub (js_add l PK) (Fin 1)) (Fin 1))
       (t @ [class_row64 sd l PK])"
  by (subst class_loop64.simps) simp

lemma class_loop64_stop: "\<not> i < K \<Longrightarrow> class_loop64 sd K PK i l t = t"
  by (subst class_loop64.simps) simp










lemmas eval_simps64 = calculateFrequencyDistribution64_def distribution_of64_def Let_def
  class_loop64_step class_loop64_stop class_row64_def fl_0 fl_1 fl_numeral

text \<open>
  The two scenarios of the section \<open>The scenarios\<close> lie in that domain: rounded, the
  limits, widths and frequencies are the same.
\<close>

lemma ceil_fl_9_5: "Math_ceil (fl (9 / 5)) = Fin 2"
proof -
  have "fl (9 / 5) = Fin (round_binary64 (9 / 5))" by (rule fl_small) simp
  moreover have "\<lceil>round_binary64 (9 / 5)\<rceil> = 2" using div_ceiling [of 9 5] by simp
  ultimately show ?thesis by simp
qed

lemma identical_values_example64:
  "range64 (distribution_of64 [5, 5, 5]) = Fin 0
   \<and> numberOfClasses64 (distribution_of64 [5, 5, 5]) = 3
   \<and> classWidth64 (distribution_of64 [5, 5, 5]) = Fin 0
   \<and> map classInterval64 (frequencyTable64 (distribution_of64 [5, 5, 5]))
       = [(Fin 5, Fin 4), (Fin 5, Fin 4), (Fin 5, Fin 4)]
   \<and> map frequency64 (frequencyTable64 (distribution_of64 [5, 5, 5])) = [0, 0, 0]"
  by (simp add: eval_simps64 sturges_3)

lemma one_to_ten_example64:
  "range64 (distribution_of64 [1, 2, 3, 4, 5, 6, 7, 8, 9, 10]) = Fin 9
   \<and> numberOfClasses64 (distribution_of64 [1, 2, 3, 4, 5, 6, 7, 8, 9, 10]) = 5
   \<and> classWidth64 (distribution_of64 [1, 2, 3, 4, 5, 6, 7, 8, 9, 10]) = Fin 2
   \<and> map classInterval64 (frequencyTable64 (distribution_of64 [1, 2, 3, 4, 5, 6, 7, 8, 9, 10]))
       = [(Fin 1, Fin 2), (Fin 3, Fin 4), (Fin 5, Fin 6), (Fin 7, Fin 8), (Fin 9, Fin 10)]
   \<and> map frequency64 (frequencyTable64 (distribution_of64 [1, 2, 3, 4, 5, 6, 7, 8, 9, 10]))
       = [2, 2, 2, 2, 2]"
  by (simp add: eval_simps64 ceil_fl_9_5)

section \<open>Class width\<close>




section \<open>Identical values\<close>




section \<open>Contiguous classes\<close>




section \<open>Sum of the frequencies\<close>




end
